theory Spec2Isabelle
  imports Complex_Main
begin

section \<open>The Floobits connection protocol (floo/common/protocols/floo\_proto.py)\<close>

text \<open>
  A shallow embedding of the class \<open>FlooProtocol\<close>. One value of the record \<open>conn\<close> is one
  instance of the class together with the part of the outside world that its methods touch:
  the module global \<open>G.JOINED_WORKSPACE\<close>, the timer service, the wire and the user interface.
  Every method is a function from the state before the call to the state after it; a method
  that can leave through an exception returns the state it leaves behind paired with the
  exception, because Python keeps the assignments made before the raise.

  Naming: a leading underscore of a Python attribute is written \<open>u_\<close> (\<open>_retries\<close> is
  \<open>u_retries\<close>, \<open>retries\<close> is \<open>retries\<close>); \<open>connected\<close> is \<open>connected_attr\<close>, the name
  \<open>connected\<close> being taken by the library.
\<close>

subsection \<open>Values\<close>

text \<open>What \<open>json.loads\<close> returns: only a \<open>JObj\<close> is a Python dict and has \<open>get\<close>.\<close>

datatype json =
  JNull | JBool bool | JNum int | JStr string | JArr "json list" | JObj "(string \<times> json) list"

datatype exc = AttributeError | SocketError | ZeroDivisionError

text \<open>\<open>emit("connect")\<close> and \<open>emit("data", name, data)\<close>; \<open>name\<close> is \<open>data.get('name')\<close>, which is
  \<open>None\<close> when the key is absent.\<close>

datatype event = Connect_event | Data_event "json option" json

text \<open>
  Modelled from the spec: the timer service \<open>utils.set_timeout\<close> / \<open>utils.cancel_timeout\<close> is not
  part of the sources. The spec gives \<open>schedule(callback, delay_ms) \<rightarrow> handle\<close> and
  \<open>cancel(handle)\<close>. A handle is taken to be an integer id chosen by the service; the class
  tests a stored handle with \<open>if self._reconnect_timeout:\<close>, which for an integer is \<open>\<noteq> 0\<close> and
  for \<open>None\<close> is false.
\<close>

type_synonym handle = int

definition truthy :: "handle option \<Rightarrow> bool" where
  "truthy t = (case t of None \<Rightarrow> False | Some h \<Rightarrow> h \<noteq> 0)"

definition NEWLINE :: char where
  "NEWLINE = CHR 0x0A"

definition MAX_RETRIES :: int where
  "MAX_RETRIES = 20"

definition INITIAL_RECONNECT_DELAY :: int where
  "INITIAL_RECONNECT_DELAY = 500"

subsection \<open>The connection object and its surroundings\<close>

text \<open>
  The first block are the attributes assigned in \<open>__init__\<close>. The second block are attributes
  that other methods assign or read although \<open>__init__\<close> never creates them:
  \<open>_connect\<close> assigns \<open>self.reconnect_delay\<close> and \<open>self.retries\<close>, \<open>stop\<close> assigns
  \<open>self.retries\<close>, \<open>connect\<close> assigns \<open>self._empty_selects\<close> (\<open>None\<close> while the attribute does
  not exist), and \<open>read\<close> tests \<open>self._listen\<close>, which no method of this class assigns: it
  exists only if the base class \<open>base.BaseProtocol\<close> (not part of the sources) provides it, so
  it is a parameter of \<open>init\<close>, \<open>None\<close> meaning that the attribute is missing.
  The third block is the world outside the object. \<open>_cert_path\<close> is left out: it is assigned
  once and used only to name the certificate file.
\<close>

record conn =
  host :: string
  port :: int
  secure :: bool
  connected_attr :: bool
  u_listener :: bool
  u_needs_handshake :: bool
  u_sock :: "int option"
  u_q :: "string list"
  u_buf :: string
  u_reconnect_delay :: int
  u_retries :: int
  u_empty_reads :: int
  u_reconnect_timeout :: "handle option"

  reconnect_delay :: "int option"
  retries :: "int option"
  u_empty_selects :: "int option"
  u_listen :: "bool option"

  JOINED_WORKSPACE :: bool
  pending_timers :: "(handle \<times> int) list"
  connect_timers :: "int list"
  wire :: "string list"
  emitted :: "event list"
  error_messages :: "string list"
  reconnect_calls :: nat

text \<open>
  \<open>u_sock\<close> is the socket as its file descriptor. \<open>pending_timers\<close> are the timers armed with
  \<open>utils.set_timeout(self.connect, delay)\<close> and neither cancelled nor fired, each with its
  delay; \<open>connect_timers\<close> are the \<open>attempts\<close> arguments of the scheduled \<open>_connect\<close> retries;
  \<open>wire\<close> are the frames that \<open>sendall\<close> has transmitted, oldest first; \<open>emitted\<close> are the
  events passed to \<open>emit\<close>; \<open>error_messages\<close> are the calls of \<open>editor.error_message\<close>;
  \<open>reconnect_calls\<close> counts the calls of \<open>reconnect\<close>. Log output (\<open>msg.log\<close>, \<open>msg.debug\<close>,
  \<open>msg.error\<close>, \<open>editor.status_message\<close>) does not alter control flow and is not recorded.
\<close>

definition init :: "bool option \<Rightarrow> bool \<Rightarrow> string \<Rightarrow> int \<Rightarrow> bool \<Rightarrow> conn" where
  "init base_listen joined h p sec =
     \<lparr> host = h, port = p, secure = sec, connected_attr = False,
       u_listener = False, u_needs_handshake = sec, u_sock = None,
       u_q = [], u_buf = [],
       u_reconnect_delay = INITIAL_RECONNECT_DELAY, u_retries = MAX_RETRIES,
       u_empty_reads = 0, u_reconnect_timeout = None,
       reconnect_delay = None, retries = None, u_empty_selects = None,
       u_listen = base_listen,
       JOINED_WORKSPACE = joined, pending_timers = [], connect_timers = [],
       wire = [], emitted = [], error_messages = [], reconnect_calls = 0 \<rparr>"

subsection \<open>Timer service\<close>

definition cancel_timeout :: "handle option \<Rightarrow> conn \<Rightarrow> conn" where
  "cancel_timeout t s =
     (case t of
        None \<Rightarrow> s
      | Some h \<Rightarrow> s\<lparr>pending_timers := filter (\<lambda>p. fst p \<noteq> h) (pending_timers s)\<rparr>)"

text \<open>\<open>set_timeout h d s\<close>: the service arms \<open>self.connect\<close> after \<open>d\<close> ms and returns \<open>h\<close>.\<close>

definition set_timeout :: "handle \<Rightarrow> int \<Rightarrow> conn \<Rightarrow> conn" where
  "set_timeout h d s = s\<lparr>pending_timers := pending_timers s @ [(h, d)]\<rparr>"

subsection \<open>cleanup, stop, reconnect\<close>

text \<open>\<open>shutdown\<close> and \<open>close\<close> of the socket are wrapped in \<open>try/except Exception: pass\<close>; whatever
  they do, the four assignments after them run.\<close>

definition cleanup :: "conn \<Rightarrow> conn" where
  "cleanup s = s\<lparr>JOINED_WORKSPACE := False, u_buf := [], u_sock := None, connected_attr := False\<rparr>"

definition stop :: "conn \<Rightarrow> conn" where
  "stop s =
     (let s1 = s\<lparr>retries := Some (- 1)\<rparr>;
          s2 = cancel_timeout (u_reconnect_timeout s1) s1;
          s3 = s2\<lparr>u_reconnect_timeout := None\<rparr>
      in cleanup s3)"

text \<open>
  \<open>int(1.5 * d)\<close>: the product is a float and \<open>int\<close> truncates towards zero. For an integer
  \<open>d\<close> of magnitude below \<open>2 ^ 52\<close> the float \<open>1.5 * d\<close> is exactly \<open>3 d / 2\<close>, so the result
  is the integer below, written without floats. The attribute only ever holds \<open>500\<close> or a
  result of this function capped at \<open>10000\<close>.
\<close>

definition int_1_5 :: "int \<Rightarrow> int" where
  "int_1_5 d = (if 0 \<le> d then (3 * d) div 2 else - ((3 * (- d)) div 2))"

text \<open>\<open>reconnect h\<close>: \<open>h\<close> is the handle that \<open>utils.set_timeout\<close> returns if it is called.\<close>

definition reconnect :: "handle \<Rightarrow> conn \<Rightarrow> conn" where
  "reconnect h s0 =
     (let s = s0\<lparr>reconnect_calls := Suc (reconnect_calls s0)\<rparr> in
      if truthy (u_reconnect_timeout s) then s
      else
        let s1 = cleanup s;
            s2 = s1\<lparr>u_reconnect_delay := min 10000 (int_1_5 (u_reconnect_delay s1))\<rparr>;
            s3 = (if 0 < u_retries s2 then
                    (set_timeout h (u_reconnect_delay s2) s2)\<lparr>u_reconnect_timeout := Some h\<rparr>
                  else if u_retries s2 = 0 then
                    s2\<lparr>error_messages := error_messages s2 @
                         [''Floobits Error! Too many reconnect failures. Giving up.'']\<rparr>
                  else s2)
        in s3\<lparr>u_retries := u_retries s3 - 1\<rparr>)"

subsection \<open>connect and \_connect\<close>

text \<open>
  What the \<open>try\<close> block of \<open>_connect\<close> (\<open>sock.connect\<close>, \<open>select.select\<close>) does is decided
  by the operating system: no exception, \<open>socket.error\<close> with the already-connected errno,
  with an in-progress errno, or with any other errno.
\<close>

datatype connect_outcome = Conn_ok | Conn_isconn | Conn_in_progress | Conn_error

text \<open>
  \<open>_connect\<close> calls \<open>self._reconnect()\<close> on a timeout and on a hard error. This class defines
  \<open>reconnect\<close> but no \<open>_reconnect\<close>, so the call is modelled as the \<open>AttributeError\<close> it
  raises. \<open>ssl.wrap_socket\<close> keeps the descriptor; the handlers of the \<open>connect\<close> event are
  taken to return normally.
\<close>

definition u_connect :: "connect_outcome \<Rightarrow> int \<Rightarrow> conn \<Rightarrow> conn \<times> exc option" where
  "u_connect oc attempts s =
     (if 500 < attempts then (s, Some AttributeError)
      else if u_sock s = None then (s, None)
      else if oc = Conn_in_progress then
        (s\<lparr>connect_timers := connect_timers s @ [attempts + 1]\<rparr>, None)
      else if oc = Conn_error then (s, Some AttributeError)
      else
        (s\<lparr>u_q := [],
           reconnect_delay := Some INITIAL_RECONNECT_DELAY,
           retries := Some MAX_RETRIES,
           emitted := emitted s @ [Connect_event],
           connected_attr := True\<rparr>, None))"

text \<open>
  \<open>connect ssl_present default_port fd oc\<close>: \<open>ssl_present\<close> says whether the module \<open>ssl\<close> was
  imported, \<open>default_port\<close> is \<open>G.DEFAULT_PORT\<close> (not part of the sources), \<open>fd\<close> is the
  descriptor of the socket that \<open>socket.socket\<close> creates, \<open>oc\<close> the outcome of the OS-level
  connect. Writing the certificate file is taken to succeed; it changes nothing in the object.
\<close>

definition connect :: "bool \<Rightarrow> int \<Rightarrow> int \<Rightarrow> connect_outcome \<Rightarrow> conn \<Rightarrow> conn \<times> exc option" where
  "connect ssl_present default_port fd oc s =
     (let s1 = cancel_timeout (u_reconnect_timeout s) s;
          s2 = s1\<lparr>u_reconnect_timeout := None\<rparr>;
          s3 = cleanup s2;
          s4 = s3\<lparr>u_empty_selects := Some 0\<rparr>;
          s5 = s4\<lparr>u_sock := Some fd\<rparr>;
          s6 = (if secure s5 \<and> \<not> ssl_present then
                  s5\<lparr>secure := False,
                     port := (if port s5 = default_port then 3148 else port s5)\<rparr>
                else s5)
      in u_connect oc 0 s6)"

subsection \<open>The readiness adapter: fd\_set, write, read\<close>

text \<open>
  \<open>fd_set\<close> appends to the three lists of its caller. \<open>fileno()\<close> is \<open>self._sock.fileno()\<close>
  and raises \<open>AttributeError\<close> when there is no socket, before anything is appended.
\<close>

definition fd_set ::
  "int list \<Rightarrow> int list \<Rightarrow> int list \<Rightarrow> conn \<Rightarrow> exc + (int list \<times> int list \<times> int list)" where
  "fd_set readable writeable errorable s =
     (if \<not> connected_attr s \<and> \<not> u_listener s then Inr (readable, writeable, errorable)
      else case u_sock s of
        None \<Rightarrow> Inl AttributeError
      | Some fileno \<Rightarrow>
          (let errorable1 = errorable @ [fileno];
               readable1 = (if u_listener s then readable @ [fileno] else readable)
           in if u_needs_handshake s then Inr (readable1, writeable @ [fileno], errorable1)
              else
                let writeable1 = (if 0 < length (u_q s) then writeable @ [fileno] else writeable)
                in Inr (readable1 @ [fileno], writeable1, errorable1)))"

text \<open>
  The drain loop of \<open>write\<close>: \<open>popleft\<close>, then \<open>sendall\<close>, until \<open>popleft\<close> raises \<open>IndexError\<close>
  on the empty queue, which is caught. \<open>send_ok i\<close> says whether the \<open>i\<close>-th \<open>sendall\<close> of this
  call completes; otherwise it raises \<open>socket.error\<close>, which \<open>write\<close> does not catch. The
  result is the frames transmitted, the queue left, and the exception. \<open>item.encode('utf-8')\<close>
  is one-to-one and written as the identity.
\<close>

fun drain :: "(nat \<Rightarrow> bool) \<Rightarrow> nat \<Rightarrow> string list \<Rightarrow> string list \<times> string list \<times> exc option" where
  "drain send_ok i [] = ([], [], None)"
| "drain send_ok i (item # rest) =
     (if send_ok i then
        (case drain send_ok (Suc i) rest of (out, rest', e) \<Rightarrow> (item # out, rest', e))
      else ([], rest, Some SocketError))"

datatype handshake_outcome = Handshake_ok | Handshake_ssl_error | Handshake_error

text \<open>
  \<open>write_cb h ssl_present hs send_ok\<close> is the method \<open>write\<close> (the name is a keyword of the
  proof language). In the handshake branch, \<open>do_handshake\<close> on a missing
  socket raises \<open>AttributeError\<close>, which is not an \<open>ssl.SSLError\<close>. When the module \<open>ssl\<close> is
  missing (\<open>ssl = False\<close>), the socket was never wrapped and has no \<open>do_handshake\<close>, and
  evaluating \<open>except ssl.SSLError\<close> itself raises \<open>AttributeError\<close>.
\<close>

definition write_cb :: "handle \<Rightarrow> bool \<Rightarrow> handshake_outcome \<Rightarrow> (nat \<Rightarrow> bool) \<Rightarrow> conn \<Rightarrow> conn \<times> exc option" where
  "write_cb h ssl_present hs send_ok s =
     (if u_needs_handshake s then
        (if \<not> ssl_present then (s, Some AttributeError)
         else if u_sock s = None \<or> hs = Handshake_error then (reconnect h s, None)
         else if hs = Handshake_ssl_error then (s, None)
         else (s\<lparr>u_needs_handshake := False\<rparr>, None))
      else if u_sock s = None then
        (case u_q s of
           [] \<Rightarrow> (s, None)
         | item # rest \<Rightarrow> (s\<lparr>u_q := rest\<rparr>, Some AttributeError))
      else
        (case drain send_ok 0 (u_q s) of
           (out, rest, e) \<Rightarrow> (s\<lparr>u_q := rest, wire := wire s @ out\<rparr>, e)))"

subsection \<open>The framing codec: \_handle and put\<close>

text \<open>
  \<open>_handle\<close>: \<open>loads\<close> stands for \<open>before.decode('utf-8', 'ignore')\<close> followed by \<open>json.loads\<close>
  (\<open>None\<close> when it raises; the decoding with \<open>'ignore'\<close> never raises). \<open>handler_raises d\<close>
  says whether \<open>emit("data", name, d)\<close> raises. \<open>data.get\<close> is outside both \<open>try\<close> blocks and
  exists only on a dict. \<open>msg.debug("got data " + name)\<close> raises \<open>TypeError\<close> inside the
  second \<open>try\<close> when \<open>name\<close> is not a string; like a failing handler this is caught, and
  \<open>stop\<close> runs only when \<open>name == 'room_info'\<close>, where \<open>name\<close> is a string.
\<close>

function u_handle_loop :: "(string \<Rightarrow> json option) \<Rightarrow> (json \<Rightarrow> bool) \<Rightarrow> conn \<Rightarrow> conn \<times> exc option" where
  "u_handle_loop loads handler_raises s =
     (if NEWLINE \<notin> set (u_buf s) then (s, None)
      else
        let before = takeWhile (\<lambda>c. c \<noteq> NEWLINE) (u_buf s);
            after = tl (dropWhile (\<lambda>c. c \<noteq> NEWLINE) (u_buf s))
        in case loads before of
             None \<Rightarrow> u_handle_loop loads handler_raises (s\<lparr>u_buf := after\<rparr>)
           | Some (JObj kv) \<Rightarrow>
               (let name = map_of kv ''name'';
                    s1 = s\<lparr>emitted := emitted s @ [Data_event name (JObj kv)]\<rparr>;
                    s2 = (if handler_raises (JObj kv) \<and> name = Some (JStr ''room_info'') then
                            stop (s1\<lparr>error_messages := error_messages s1 @
                                       [''Error joining workspace'']\<rparr>)
                          else s1)
                in u_handle_loop loads handler_raises (s2\<lparr>u_buf := after\<rparr>))
           | Some _ \<Rightarrow> (s, Some AttributeError))"
  by pat_completeness auto
termination
proof (relation "measure (\<lambda>(loads, handler_raises, s). length (u_buf s))", goal_cases)
  case 1
  show ?case by simp
next
  case (2 loads handler_raises s before after)
  then have "dropWhile (\<lambda>c. c \<noteq> NEWLINE) (u_buf s) \<noteq> []"
    by (auto simp: dropWhile_eq_Nil_conv)
  then have "length (tl (dropWhile (\<lambda>c. c \<noteq> NEWLINE) (u_buf s)))
      < length (dropWhile (\<lambda>c. c \<noteq> NEWLINE) (u_buf s))"
    by simp
  also have "\<dots> \<le> length (u_buf s)"
    by (rule length_dropWhile_le)
  finally show ?case using 2 by simp
next
  case (3 loads handler_raises s before after d kv name s1 s2)
  then have "dropWhile (\<lambda>c. c \<noteq> NEWLINE) (u_buf s) \<noteq> []"
    by (auto simp: dropWhile_eq_Nil_conv)
  then have "length (tl (dropWhile (\<lambda>c. c \<noteq> NEWLINE) (u_buf s)))
      < length (dropWhile (\<lambda>c. c \<noteq> NEWLINE) (u_buf s))"
    by simp
  also have "\<dots> \<le> length (u_buf s)"
    by (rule length_dropWhile_le)
  finally show ?case using 3 by simp
qed

declare u_handle_loop.simps [simp del]

text \<open>\<open>_handle(data)\<close>: append the bytes read, then split off complete lines.\<close>

definition u_handle ::
  "(string \<Rightarrow> json option) \<Rightarrow> (json \<Rightarrow> bool) \<Rightarrow> string \<Rightarrow> conn \<Rightarrow> conn \<times> exc option" where
  "u_handle loads handler_raises data s =
     u_handle_loop loads handler_raises (s\<lparr>u_buf := u_buf s @ data\<rparr>)"

text \<open>
  \<open>put dumps item\<close>: a message is a dict, here the list of its entries; \<open>not item\<close> holds of
  the empty dict. \<open>dumps\<close> is \<open>json.dumps\<close>. The result is the state and the value returned
  (\<open>None\<close> or the queue size).
\<close>

definition put :: "(json \<Rightarrow> string) \<Rightarrow> (string \<times> json) list \<Rightarrow> conn \<Rightarrow> conn \<times> nat option" where
  "put dumps item s =
     (if item = [] then (s, None)
      else
        let s1 = s\<lparr>u_q := u_q s @ [dumps (JObj item) @ [NEWLINE]]\<rparr>
        in (s1, Some (length (u_q s1))))"

text \<open>\<open>listen\<close> clears the queue and asks the reactor for a readiness round.\<close>

definition listen :: "conn \<Rightarrow> conn" where
  "listen s = s\<lparr>u_q := []\<rparr>"

subsection \<open>read\<close>

text \<open>
  The receive loop of \<open>read\<close> appends what \<open>recv\<close> returns until \<open>recv\<close> returns no bytes or
  raises \<open>socket.error\<close> (on a non-blocking socket: nothing more to read for now). \<open>chunks\<close>
  are the results of the successive \<open>recv\<close> calls of one \<open>read\<close>, the list ending where
  \<open>recv\<close> raises; \<open>received chunks\<close> is the local accumulator \<open>buf\<close> after the loop.
\<close>

definition received :: "string list \<Rightarrow> string" where
  "received chunks = concat (takeWhile (\<lambda>d. d \<noteq> []) chunks)"

text \<open>
  \<open>read h tick accept_ok chunks loads handler_raises\<close>: \<open>tick\<close> is \<open>G.TICK_TIME\<close> (not part of
  the sources), taken to be an integer; \<open>2000 / tick\<close> raises \<open>ZeroDivisionError\<close> for \<open>0\<close>.
  For an integer counter \<open>c\<close> the test \<open>c > 2000 / tick\<close> has the same value under true
  division (Python 3) and floor division (Python 2); it is written with rationals.
  \<open>accept_ok\<close> says whether \<open>self._sock.accept()\<close> returns, which is called only when
  \<open>self._listen\<close> is true. A missing socket makes \<open>recv\<close> raise the \<open>AttributeError\<close> that
  \<open>read\<close> answers with \<open>reconnect\<close>.
\<close>

definition read ::
  "handle \<Rightarrow> int \<Rightarrow> bool \<Rightarrow> string list \<Rightarrow> (string \<Rightarrow> json option) \<Rightarrow> (json \<Rightarrow> bool) \<Rightarrow>
     conn \<Rightarrow> conn \<times> exc option" where
  "read h tick accept_ok chunks loads handler_raises s =
     (case u_listen s of
        None \<Rightarrow> (s, Some AttributeError)
      | Some l \<Rightarrow>
          if l \<and> u_sock s = None then (s, Some AttributeError)
          else if l \<and> \<not> accept_ok then (s, Some SocketError)
          else if u_sock s = None then (reconnect h s, None)
          else if received chunks \<noteq> [] then
            u_handle loads handler_raises (received chunks) (s\<lparr>u_empty_reads := 0\<rparr>)
          else
            let s1 = s\<lparr>u_empty_reads := u_empty_reads s + 1\<rparr>
            in if tick = 0 then (s1, Some ZeroDivisionError)
               else if (2000 :: rat) / of_int tick < of_int (u_empty_reads s1) then
                 (reconnect h s1, None)
               else (s1, None))"

subsection \<open>Sequences of calls\<close>

text \<open>
  The calls that the reactor, the timer service and the application make on one connection.
  \<open>Op_timer_fires k\<close> is the timer service running out the \<open>k\<close>-th pending reconnect timer: the
  timer leaves the service and its callback \<open>self.connect\<close> runs. \<open>Op_connect_retry\<close> is the
  timer service calling \<open>_connect(attempts)\<close>. A call that raises leaves the state it had
  reached; the next call starts from there.
\<close>

datatype op =
    Op_connect bool int int connect_outcome
  | Op_connect_retry connect_outcome int
  | Op_timer_fires nat bool int int connect_outcome
  | Op_cleanup
  | Op_stop
  | Op_reconnect handle
  | Op_read handle int bool "string list" "string \<Rightarrow> json option" "json \<Rightarrow> bool"
  | Op_write handle bool handshake_outcome "nat \<Rightarrow> bool"
  | Op_put "json \<Rightarrow> string" "(string \<times> json) list"
  | Op_listen

fun step :: "op \<Rightarrow> conn \<Rightarrow> conn" where
  "step (Op_connect sp dp fd oc) s = fst (connect sp dp fd oc s)"
| "step (Op_connect_retry oc attempts) s = fst (u_connect oc attempts s)"
| "step (Op_timer_fires k sp dp fd oc) s =
     (if k < length (pending_timers s) then
        fst (connect sp dp fd oc
              (s\<lparr>pending_timers := take k (pending_timers s) @ drop (Suc k) (pending_timers s)\<rparr>))
      else s)"
| "step Op_cleanup s = cleanup s"
| "step Op_stop s = stop s"
| "step (Op_reconnect h) s = reconnect h s"
| "step (Op_read h tick accept_ok chunks loads handler_raises) s =
     fst (read h tick accept_ok chunks loads handler_raises s)"
| "step (Op_write h sp hs send_ok) s = fst (write_cb h sp hs send_ok s)"
| "step (Op_put dumps item) s = fst (put dumps item s)"
| "step Op_listen s = listen s"

fun run :: "op list \<Rightarrow> conn \<Rightarrow> conn" where
  "run [] s = s"
| "run (x # xs) s = run xs (step x s)"

text \<open>The handle that the timer service would return in a call is truthy.\<close>

fun issues_truthy :: "op \<Rightarrow> bool" where
  "issues_truthy (Op_reconnect h) = (h \<noteq> 0)"
| "issues_truthy (Op_read h tick accept_ok chunks loads handler_raises) = (h \<noteq> 0)"
| "issues_truthy (Op_write h sp hs send_ok) = (h \<noteq> 0)"
| "issues_truthy x = True"

text \<open>The stored handle is truthy if there is one, and the timers pending in the service are
  exactly the one it names.\<close>

definition one_timer :: "conn \<Rightarrow> bool" where
  "one_timer s =
     (u_reconnect_timeout s \<noteq> Some 0
      \<and> map fst (pending_timers s) =
          (case u_reconnect_timeout s of None \<Rightarrow> [] | Some h \<Rightarrow> [h]))"

text \<open>
  \<open>failure_cycles h sp dp fd oc n\<close>: \<open>n\<close> rounds of \<open>connect()\<close> followed by a call of
  \<open>reconnect()\<close> (from \<open>read\<close> or \<open>write\<close>, or directly). \<open>connect\<close> clears the stored handle,
  so each of the \<open>n\<close> calls of \<open>reconnect\<close> gets past its guard.
\<close>

fun failure_cycles ::
  "handle \<Rightarrow> bool \<Rightarrow> int \<Rightarrow> int \<Rightarrow> connect_outcome \<Rightarrow> nat \<Rightarrow> conn \<Rightarrow> conn" where
  "failure_cycles h sp dp fd oc 0 s = s"
| "failure_cycles h sp dp fd oc (Suc n) s =
     reconnect h (fst (connect sp dp fd oc (failure_cycles h sp dp fd oc n s)))"


text \<open>\<open>puts dumps items\<close>: one call of \<open>put\<close> for each item, in order.\<close>

fun puts :: "(json \<Rightarrow> string) \<Rightarrow> (string \<times> json) list list \<Rightarrow> conn \<Rightarrow> conn" where
  "puts dumps [] s = s"
| "puts dumps (item # items) s = puts dumps items (fst (put dumps item s))"

subsection \<open>Notions of the specification\<close>

text \<open>The backoff step in the specification's words: \<open>min(10000, round(1.5 \<times> delay))\<close>.\<close>

definition spec_backoff_delay :: "int \<Rightarrow> int" where
  "spec_backoff_delay d = min 10000 (round (1.5 * real_of_int d))"

text \<open>A buffer of complete lines followed by a partial line.\<close>

definition framed :: "string list \<Rightarrow> string \<Rightarrow> string" where
  "framed lines partial = concat (map (\<lambda>l. l @ [NEWLINE]) lines) @ partial"

text \<open>The \<open>data\<close> events of the lines that parse, in the order of the lines.\<close>

fun data_events :: "(string \<Rightarrow> json option) \<Rightarrow> string list \<Rightarrow> event list" where
  "data_events loads [] = []"
| "data_events loads (l # ls) =
     (case loads l of
        Some (JObj kv) \<Rightarrow> Data_event (map_of kv ''name'') (JObj kv) # data_events loads ls
      | _ \<Rightarrow> data_events loads ls)"

definition is_dict :: "json \<Rightarrow> bool" where
  "is_dict d = (case d of JObj kv \<Rightarrow> True | _ \<Rightarrow> False)"

text \<open>
  Instances of the parameters \<open>loads\<close> and \<open>dumps\<close> for the scenarios: they agree with
  \<open>json.loads\<close> and \<open>json.dumps\<close> on the texts and messages that the scenarios use.
\<close>

definition loads_sample :: "string \<Rightarrow> json option" where
  \<open>loads_sample t =
     (if t = ''{"name":"ping"}'' then Some (JObj [(''name'', JStr ''ping'')])
      else if t = ''5'' then Some (JNum 5)
      else None)\<close>

definition dumps_sample :: "json \<Rightarrow> string" where
  \<open>dumps_sample d =
     (if d = JObj [(''name'', JStr ''ping'')] then ''{"name": "ping"}''
      else ''{"name": "patch", "data": "x"}'')\<close>

section \<open>Properties\<close>

lemmas method_defs = cleanup_def stop_def reconnect_def set_timeout_def cancel_timeout_def
  connect_def u_connect_def truthy_def int_1_5_def MAX_RETRIES_def INITIAL_RECONNECT_DELAY_def

subsection \<open>cleanup and the workspace flag\<close>

text \<open>
  C10. Every call of \<open>cleanup\<close> sets the process-wide flag \<open>G.JOINED_WORKSPACE\<close> to false, in
  addition to clearing the inbound buffer, dropping the socket and marking the connection as
  not established; so does every call of \<open>stop\<close>, and every call of \<open>reconnect\<close> that gets
  past its guard (no truthy timer handle stored).
\<close>

theorem cleanup_resets_joined_workspace:
  "\<not> JOINED_WORKSPACE (cleanup s) \<and> u_buf (cleanup s) = [] \<and> u_sock (cleanup s) = None
     \<and> \<not> connected_attr (cleanup s)
     \<and> \<not> JOINED_WORKSPACE (stop s)
     \<and> (\<not> truthy (u_reconnect_timeout s) \<longrightarrow> \<not> JOINED_WORKSPACE (reconnect h s))"
  by (simp add: cleanup_def stop_def reconnect_def set_timeout_def cancel_timeout_def Let_def
      split: option.splits)

theorem cleanup_resets_joined_workspace_witness:
  "\<not> truthy (u_reconnect_timeout (init (Some False) True ''floobits.com'' 3448 True))
     \<and> JOINED_WORKSPACE (init (Some False) True ''floobits.com'' 3448 True)
     \<and> \<not> JOINED_WORKSPACE (reconnect 7 (init (Some False) True ''floobits.com'' 3448 True))"
  using cleanup_resets_joined_workspace [of "init (Some False) True ''floobits.com'' 3448 True" 7]
  by (simp add: init_def truthy_def)

subsection \<open>fd\_set\<close>

text \<open>
  C9 as stated fails: a connection that is established, is no listener and still has its TLS
  handshake pending gets its descriptor into the write and error sets only, not into the read
  set (\<open>return writeable.append(fileno)\<close> leaves \<open>fd_set\<close> before the last line).
\<close>

theorem fd_set_handshake_counterexample:
  "fd_set [] [] []
     (fst (connect True 3448 5 Conn_ok (init (Some False) False ''floobits.com'' 3448 True)))
   = Inr ([], [5], [5])"
  by (simp add: fd_set_def init_def method_defs)

text \<open>
  C9 (amended). \<open>fd_set\<close> contributes nothing when the connection is neither established nor a
  listener. When it contributes (and there is a socket), it adds the descriptor to the error
  set; to the write set exactly when a handshake is pending or the outbound queue is not
  empty; to the read set once when listening and once more when no handshake is pending, so
  that an established non-listener is watched for reading exactly when its handshake is done.
\<close>

theorem fd_set_interest:
  "(\<not> connected_attr s \<and> \<not> u_listener s \<longrightarrow> fd_set r w e s = Inr (r, w, e))
   \<and> ((connected_attr s \<or> u_listener s) \<and> u_sock s = Some fd \<longrightarrow>
        fd_set r w e s =
          Inr (r @ (if u_listener s then [fd] else []) @ (if u_needs_handshake s then [] else [fd]),
               if u_needs_handshake s \<or> u_q s \<noteq> [] then w @ [fd] else w,
               e @ [fd]))"
  by (simp add: fd_set_def Let_def)

theorem fd_set_interest_witness:
  "fd_set [1] [2] [3] (init (Some False) False ''floobits.com'' 3448 True) = Inr ([1], [2], [3])
   \<and> fd_set [1] [2] [3]
        (fst (connect True 3448 5 Conn_ok (init (Some False) False ''floobits.com'' 3448 False)))
      = Inr ([1, 5], [2], [3, 5])"
  using fd_set_interest [of "init (Some False) False ''floobits.com'' 3448 True" "[1]" "[2]" "[3]" 5]
    fd_set_interest [of "fst (connect True 3448 5 Conn_ok
        (init (Some False) False ''floobits.com'' 3448 False))" "[1]" "[2]" "[3]" 5]
  by (simp add: init_def method_defs)

subsection \<open>Helper facts about reconnect, connect and read\<close>

lemma int_1_5_floor: "0 \<le> d \<Longrightarrow> int_1_5 d = \<lfloor>1.5 * real_of_int d\<rfloor>"
proof -
  assume "0 \<le> d"
  have "1.5 * real_of_int d = real_of_int (3 * d) / real_of_int 2"
    by simp
  then have "\<lfloor>1.5 * real_of_int d\<rfloor> = (3 * d) div 2"
    by (simp only: floor_divide_of_int_eq)
  with \<open>0 \<le> d\<close> show ?thesis
    by (simp add: int_1_5_def)
qed

lemma reconnect_fields:
  "\<not> truthy (u_reconnect_timeout s) \<Longrightarrow>
     u_reconnect_delay (reconnect h s) = min 10000 (int_1_5 (u_reconnect_delay s))
   \<and> u_retries (reconnect h s) = u_retries s - 1
   \<and> error_messages (reconnect h s) =
       error_messages s @
         (if u_retries s = 0 then [''Floobits Error! Too many reconnect failures. Giving up.'']
          else [])
   \<and> pending_timers (reconnect h s) =
       pending_timers s @
         (if 0 < u_retries s then [(h, min 10000 (int_1_5 (u_reconnect_delay s)))] else [])"
  by (simp add: reconnect_def cleanup_def set_timeout_def Let_def)

lemma connect_fields:
  "u_reconnect_timeout (fst (connect sp dp fd oc s)) = None
   \<and> u_reconnect_delay (fst (connect sp dp fd oc s)) = u_reconnect_delay s
   \<and> u_retries (fst (connect sp dp fd oc s)) = u_retries s
   \<and> u_empty_reads (fst (connect sp dp fd oc s)) = u_empty_reads s
   \<and> error_messages (fst (connect sp dp fd oc s)) = error_messages s"
  by (simp add: connect_def u_connect_def cleanup_def cancel_timeout_def Let_def
      split: option.splits)

lemma cycle_fields:
  "u_reconnect_delay (failure_cycles h sp dp fd oc (Suc n) s) =
      min 10000 (int_1_5 (u_reconnect_delay (failure_cycles h sp dp fd oc n s)))
   \<and> u_retries (failure_cycles h sp dp fd oc (Suc n) s) =
      u_retries (failure_cycles h sp dp fd oc n s) - 1
   \<and> error_messages (failure_cycles h sp dp fd oc (Suc n) s) =
       error_messages (failure_cycles h sp dp fd oc n s) @
         (if u_retries (failure_cycles h sp dp fd oc n s) = 0
          then [''Floobits Error! Too many reconnect failures. Giving up.''] else [])"
  using reconnect_fields [of "fst (connect sp dp fd oc (failure_cycles h sp dp fd oc n s))" h]
    connect_fields [of sp dp fd oc "failure_cycles h sp dp fd oc n s"]
  by (simp add: truthy_def)

lemma cycles_retries:
  "u_retries (failure_cycles h sp dp fd oc n s) = u_retries s - int n"
proof (induction n)
  case 0
  show ?case by simp
next
  case (Suc n)
  then show ?case using cycle_fields [of h sp dp fd oc n s] by simp
qed

lemma cycles_messages:
  "error_messages (failure_cycles h sp dp fd oc n s) =
     error_messages s @
       (if 0 \<le> u_retries s \<and> u_retries s < int n
        then [''Floobits Error! Too many reconnect failures. Giving up.''] else [])"
proof (induction n)
  case 0
  show ?case by simp
next
  case (Suc n)
  have "error_messages (failure_cycles h sp dp fd oc (Suc n) s) =
       error_messages (failure_cycles h sp dp fd oc n s) @
         (if u_retries s = int n
          then [''Floobits Error! Too many reconnect failures. Giving up.''] else [])"
    using cycle_fields [of h sp dp fd oc n s] cycles_retries [of h sp dp fd oc n s] by simp
  with Suc show ?case by auto
qed

lemma cycles_delay:
  "u_reconnect_delay (failure_cycles h sp dp fd oc n s) =
     ((\<lambda>d. min 10000 (int_1_5 d)) ^^ n) (u_reconnect_delay s)"
proof (induction n)
  case 0
  show ?case by simp
next
  case (Suc n)
  then show ?case using cycle_fields [of h sp dp fd oc n s] by simp
qed

lemma backoff_values:
  "map (\<lambda>n. ((\<lambda>d. min 10000 (int_1_5 d)) ^^ n) 500) [0, 1, 2, 3, 4, 5, 6, 7, 8, 9] =
     [500, 750, 1125, 1687, 2530, 3795, 5692, 8538, 10000, 10000]"
  by (simp add: int_1_5_def eval_nat_numeral)

lemma backoff_bounds:
  "500 \<le> d \<and> d \<le> 10000 \<Longrightarrow>
     d \<le> min 10000 (int_1_5 d) \<and> 500 \<le> min 10000 (int_1_5 d) \<and> min 10000 (int_1_5 d) \<le> 10000"
  by (simp add: int_1_5_def, presburger)

lemma backoff_range:
  "500 \<le> ((\<lambda>d. min 10000 (int_1_5 d)) ^^ n) 500 \<and> ((\<lambda>d. min 10000 (int_1_5 d)) ^^ n) 500 \<le> 10000"
proof (induction n)
  case 0
  show ?case by simp
next
  case (Suc n)
  then show ?case using backoff_bounds [of "((\<lambda>d. min 10000 (int_1_5 d)) ^^ n) 500"] by simp
qed






subsection \<open>connect after a reconnect\<close>

text \<open>
  C1 fails on the code. \<open>connect\<close> assigns \<open>self._empty_selects\<close> and \<open>_connect\<close> assigns
  \<open>self.reconnect_delay\<close> and \<open>self.retries\<close>, while the counter, the delay and the budget that
  \<open>read\<close> and \<open>reconnect\<close> use are \<open>self._empty_reads\<close>, \<open>self._reconnect_delay\<close> and
  \<open>self._retries\<close>. The run below is: a fresh connection connects, one \<open>read\<close> finds nothing,
  a failed handshake in \<open>write\<close> calls \<open>reconnect\<close>, the timer fires and \<open>connect\<close> succeeds
  again. After it the queue is empty, but the empty-read counter is 1, the delay 750 and the
  budget 19.
\<close>

theorem connect_does_not_reset_backoff:
  "(let s = run [Op_connect True 3448 5 Conn_ok,
                 Op_read 7 1 True [] loads_sample (\<lambda>d. False),
                 Op_write 7 True Handshake_error (\<lambda>i. True),
                 Op_timer_fires 0 True 3448 6 Conn_ok]
                (init (Some False) False ''floobits.com'' 3448 True)
    in connected_attr s \<and> u_q s = [] \<and> u_empty_reads s = 1 \<and> u_reconnect_delay s = 750
       \<and> u_retries s = 19 \<and> u_empty_selects s = Some 0 \<and> reconnect_delay s = Some 500
       \<and> retries s = Some 20)"
  by (simp add: init_def method_defs read_def write_cb_def received_def Let_def)

text \<open>For every state: a successful \<open>connect\<close> empties the queue and leaves the three
  attributes as they were.\<close>

lemma connect_success_keeps:
  "oc = Conn_ok \<or> oc = Conn_isconn \<Longrightarrow>
   (let s' = fst (connect sp dp fd oc s)
    in u_q s' = [] \<and> connected_attr s' \<and> u_empty_reads s' = u_empty_reads s
       \<and> u_reconnect_delay s' = u_reconnect_delay s \<and> u_retries s' = u_retries s)"
  by (auto simp add: method_defs Let_def split: option.splits)

subsection \<open>stop\<close>

text \<open>
  C2 fails on the code. \<open>stop\<close> assigns \<open>self.retries = -1\<close>; the budget that \<open>reconnect\<close>
  tests is \<open>self._retries\<close>, which stays 20. After \<open>stop()\<close> on a fresh connection there is no
  socket, so \<open>recv\<close> in \<open>read\<close> and \<open>do_handshake\<close> in \<open>write\<close> raise \<open>AttributeError\<close>,
  both call \<open>reconnect\<close>, and \<open>reconnect\<close> arms a timer. When the attribute \<open>_listen\<close> does
  not exist, \<open>read\<close> raises instead.
\<close>

theorem stop_does_not_disable_reconnect:
  "(let s = stop (init (Some False) False ''floobits.com'' 3448 True)
    in u_retries s = 20 \<and> retries s = Some (- 1) \<and> pending_timers s = []
       \<and> snd (read 7 1 True [] loads_sample (\<lambda>d. False) s) = None
       \<and> pending_timers (fst (read 7 1 True [] loads_sample (\<lambda>d. False) s)) = [(7, 750)]
       \<and> snd (write_cb 7 True Handshake_ok (\<lambda>i. True) s) = None
       \<and> pending_timers (fst (write_cb 7 True Handshake_ok (\<lambda>i. True) s)) = [(7, 750)])
   \<and> snd (read 7 1 True [] loads_sample (\<lambda>d. False)
        (stop (init None False ''floobits.com'' 3448 True))) = Some AttributeError"
  by (simp add: init_def method_defs read_def write_cb_def received_def Let_def)

subsection \<open>The backoff delay\<close>

text \<open>
  C3 as stated fails: the code computes \<open>int(1.5 * delay)\<close>, which truncates, not
  \<open>round(1.5 * delay)\<close>. From the delay 1125 (after two reconnects) the next delay is 1687,
  while \<open>min(10000, round(1.5 \<times> 1125))\<close> is 1688.
\<close>

theorem backoff_round_counterexample:
  "u_reconnect_delay (failure_cycles 7 True 3448 5 Conn_ok 2
      (init (Some False) False ''floobits.com'' 3448 True)) = 1125
   \<and> u_reconnect_delay (failure_cycles 7 True 3448 5 Conn_ok 3
      (init (Some False) False ''floobits.com'' 3448 True)) = 1687
   \<and> spec_backoff_delay 1125 = 1688"
  unfolding cycles_delay
  by (simp add: init_def INITIAL_RECONNECT_DELAY_def int_1_5_def eval_nat_numeral
      spec_backoff_delay_def round_def)

text \<open>
  C3 (amended). On each call of \<open>reconnect\<close> that gets past its guard, the new delay is
  \<open>min(10000, \<lfloor>1.5 \<times> old delay\<rfloor>)\<close> (for a delay that is not negative); it never exceeds
  10000 and is not below the old delay when that was at most 10000. Starting from a fresh
  connection the delays after 0, 1, 2, ... reconnects are 500, 750, 1125, 1687, 2530, 3795,
  5692, 8538, 10000, 10000; the sequence never decreases and stays between 500 and 10000.
\<close>

theorem reconnect_backoff_delay:
  "(\<not> truthy (u_reconnect_timeout s) \<and> 0 \<le> u_reconnect_delay s \<longrightarrow>
      u_reconnect_delay (reconnect h s) = min 10000 \<lfloor>1.5 * real_of_int (u_reconnect_delay s)\<rfloor>
      \<and> u_reconnect_delay (reconnect h s) \<le> 10000
      \<and> (u_reconnect_delay s \<le> 10000 \<longrightarrow> u_reconnect_delay s \<le> u_reconnect_delay (reconnect h s)))
   \<and> map (\<lambda>n. u_reconnect_delay (failure_cycles h sp dp fd oc n (init l j hst p sec)))
         [0, 1, 2, 3, 4, 5, 6, 7, 8, 9]
       = [500, 750, 1125, 1687, 2530, 3795, 5692, 8538, 10000, 10000]
   \<and> 500 \<le> u_reconnect_delay (failure_cycles h sp dp fd oc n (init l j hst p sec))
   \<and> u_reconnect_delay (failure_cycles h sp dp fd oc n (init l j hst p sec))
       \<le> u_reconnect_delay (failure_cycles h sp dp fd oc (Suc n) (init l j hst p sec))
   \<and> u_reconnect_delay (failure_cycles h sp dp fd oc n (init l j hst p sec)) \<le> 10000"
proof -
  let ?D = "\<lambda>n. u_reconnect_delay (failure_cycles h sp dp fd oc n (init l j hst p sec))"
  have D: "?D n = ((\<lambda>d. min 10000 (int_1_5 d)) ^^ n) 500" for n
    by (simp add: cycles_delay init_def INITIAL_RECONNECT_DELAY_def)
  have step: "\<not> truthy (u_reconnect_timeout s) \<and> 0 \<le> u_reconnect_delay s \<longrightarrow>
      u_reconnect_delay (reconnect h s) = min 10000 \<lfloor>1.5 * real_of_int (u_reconnect_delay s)\<rfloor>
      \<and> u_reconnect_delay (reconnect h s) \<le> 10000
      \<and> (u_reconnect_delay s \<le> 10000 \<longrightarrow> u_reconnect_delay s \<le> u_reconnect_delay (reconnect h s))"
  proof (intro impI, elim conjE)
    assume g: "\<not> truthy (u_reconnect_timeout s)" and nn: "0 \<le> u_reconnect_delay s"
    have new: "u_reconnect_delay (reconnect h s) = min 10000 (int_1_5 (u_reconnect_delay s))"
      using reconnect_fields [OF g, of h] by simp
    have grow: "u_reconnect_delay s \<le> int_1_5 (u_reconnect_delay s)"
      using nn by (simp add: int_1_5_def)
    show "u_reconnect_delay (reconnect h s) = min 10000 \<lfloor>1.5 * real_of_int (u_reconnect_delay s)\<rfloor>
      \<and> u_reconnect_delay (reconnect h s) \<le> 10000
      \<and> (u_reconnect_delay s \<le> 10000 \<longrightarrow> u_reconnect_delay s \<le> u_reconnect_delay (reconnect h s))"
      using new grow int_1_5_floor [OF nn] by simp
  qed
  have vals: "map ?D [0, 1, 2, 3, 4, 5, 6, 7, 8, 9]
       = [500, 750, 1125, 1687, 2530, 3795, 5692, 8538, 10000, 10000]"
    using backoff_values by (simp only: D list.map)
  have range: "500 \<le> ?D n \<and> ?D n \<le> 10000"
    using backoff_range [of n] by (simp only: D)
  have mono: "?D n \<le> ?D (Suc n)"
    using backoff_bounds [of "?D n"] range cycle_fields [of h sp dp fd oc n "init l j hst p sec"]
    by simp
  show ?thesis using step vals range mono by blast
qed

theorem reconnect_backoff_delay_witness:
  "\<not> truthy (u_reconnect_timeout (init (Some False) False ''floobits.com'' 3448 True))
   \<and> 0 \<le> u_reconnect_delay (init (Some False) False ''floobits.com'' 3448 True)
   \<and> u_reconnect_delay (init (Some False) False ''floobits.com'' 3448 True) \<le> 10000
   \<and> u_reconnect_delay (reconnect 7 (init (Some False) False ''floobits.com'' 3448 True)) = 750"
  using reconnect_backoff_delay [of "init (Some False) False ''floobits.com'' 3448 True" 7]
  by (simp add: init_def truthy_def INITIAL_RECONNECT_DELAY_def)

subsection \<open>The retry budget\<close>

text \<open>
  C4 as stated fails: after 20 calls of \<open>reconnect\<close> on a fresh connection the budget is 0 and
  \<open>editor.error_message\<close> has not been called. The 20th call finds the budget at 1 and arms
  a timer.
\<close>

theorem give_up_counterexample:
  "u_retries (failure_cycles 7 True 3448 5 Conn_ok 20
      (init (Some False) False ''floobits.com'' 3448 True)) = 0
   \<and> error_messages (failure_cycles 7 True 3448 5 Conn_ok 20
      (init (Some False) False ''floobits.com'' 3448 True)) = []"
  by (simp add: cycles_retries cycles_messages init_def MAX_RETRIES_def)

text \<open>
  C4 (amended). Every call of \<open>reconnect\<close> that gets past its guard lowers the budget by
  exactly one, whatever it finds; the budget goes below zero. With the budget starting at 20,
  after \<open>n\<close> such calls it is \<open>20 - n\<close>, and the terminal notification has been issued exactly
  once if \<open>n \<ge> 21\<close> and not at all before: it is issued by the 21st call, the one that finds
  the budget at 0.
\<close>

theorem reconnect_retry_budget:
  "(\<not> truthy (u_reconnect_timeout s) \<longrightarrow> u_retries (reconnect h s) = u_retries s - 1)
   \<and> u_retries (failure_cycles h sp dp fd oc n (init l j hst p sec)) = 20 - int n
   \<and> error_messages (failure_cycles h sp dp fd oc n (init l j hst p sec)) =
       (if 21 \<le> n then [''Floobits Error! Too many reconnect failures. Giving up.''] else [])"
  using reconnect_fields [of s h]
  by (auto simp add: cycles_retries cycles_messages init_def MAX_RETRIES_def)

theorem reconnect_retry_budget_witness:
  "\<not> truthy (u_reconnect_timeout (init (Some False) False ''floobits.com'' 3448 True))
   \<and> u_retries (reconnect 7 (init (Some False) False ''floobits.com'' 3448 True)) = 19
   \<and> u_retries (failure_cycles 7 True 3448 5 Conn_ok 21
        (init (Some False) False ''floobits.com'' 3448 True)) = - 1
   \<and> error_messages (failure_cycles 7 True 3448 5 Conn_ok 21
        (init (Some False) False ''floobits.com'' 3448 True)) =
       [''Floobits Error! Too many reconnect failures. Giving up.'']"
  using reconnect_retry_budget [of "init (Some False) False ''floobits.com'' 3448 True" 7
      True 3448 5 Conn_ok 21 "Some False" False "''floobits.com''" 3448 True]
  by (simp add: init_def truthy_def MAX_RETRIES_def)

subsection \<open>Empty reads\<close>



subsection \<open>The outbound queue\<close>

text \<open>
  What one drain of the queue does, in closed form: with \<open>k\<close> the number of leading sends that
  complete, the first \<open>k\<close> frames are transmitted, the frame after them (if any) is popped and
  lost with the exception, and the frames behind it stay queued.
\<close>

lemma drain_char:
  "drain send_ok i q =
     (let k = length (takeWhile send_ok [i..<i + length q])
      in (take k q, drop (Suc k) q, if k < length q then Some SocketError else None))"
proof (induction q arbitrary: i)
  case Nil
  show ?case by simp
next
  case (Cons item rest)
  have "i < i + length (item # rest)"
    by simp
  then have "[i..<i + length (item # rest)] = i # [Suc i..<i + length (item # rest)]"
    by (rule upt_conv_Cons)
  moreover have "i + length (item # rest) = Suc i + length rest"
    by simp
  ultimately have upt: "[i..<i + length (item # rest)] = i # [Suc i..<Suc i + length rest]"
    by (simp only:)
  show ?case
    unfolding upt using Cons [of "Suc i"] by (simp add: Let_def)
qed

lemma put_fields:
  "item \<noteq> [] \<Longrightarrow>
     fst (put dumps item s) = s\<lparr>u_q := u_q s @ [dumps (JObj item) @ [NEWLINE]]\<rparr>
   \<and> snd (put dumps item s) = Some (Suc (length (u_q s)))"
  by (simp add: put_def Let_def)

lemma puts_fields:
  "[] \<notin> set items \<Longrightarrow>
     puts dumps items s = s\<lparr>u_q := u_q s @ map (\<lambda>item. dumps (JObj item) @ [NEWLINE]) items\<rparr>"
proof (induction items arbitrary: s)
  case Nil
  show ?case by simp
next
  case (Cons item items)
  then have "item \<noteq> []" and "[] \<notin> set items"
    by auto
  then show ?case
    using Cons.IH [of "fst (put dumps item s)"] put_fields [of item dumps s] by simp
qed

lemma write_drains:
  "\<not> u_needs_handshake s \<Longrightarrow> u_sock s \<noteq> None \<Longrightarrow>
   write_cb h sp hs send_ok s =
     (let k = length (takeWhile send_ok [0..<length (u_q s)])
      in (s\<lparr>u_q := drop (Suc k) (u_q s), wire := wire s @ take k (u_q s)\<rparr>,
          if k < length (u_q s) then Some SocketError else None))"
  by (auto simp add: write_cb_def drain_char Let_def)

text \<open>
  C6 as stated fails: \<open>write\<close> pops a frame before it sends it and does not catch
  \<open>socket.error\<close>. Two messages are queued on an established plain connection and the first
  \<open>sendall\<close> raises: the first frame is neither transmitted nor queued any more.
\<close>

theorem failed_send_drops_frame_counterexample:
  \<open>(let s = fst (connect True 3448 5 Conn_ok (init (Some False) False ''floobits.com'' 3448 False));
        q = puts dumps_sample
              [[(''name'', JStr ''patch''), (''data'', JStr ''x'')], [(''name'', JStr ''ping'')]] s;
        r = write_cb 7 True Handshake_ok ((<) 0) q
    in u_q q = [''{"name": "patch", "data": "x"}'' @ [NEWLINE], ''{"name": "ping"}'' @ [NEWLINE]]
       \<and> snd r = Some SocketError
       \<and> wire (fst r) = []
       \<and> u_q (fst r) = [''{"name": "ping"}'' @ [NEWLINE]])\<close>
  by (simp add: init_def method_defs put_def write_cb_def dumps_sample_def Let_def)

text \<open>
  C6 (amended). For every sequence of \<open>put(item)\<close> calls with non-empty items, \<open>put\<close> serializes
  each item with a trailing separator and appends it at the tail of the queue. On a connection
  with a socket and no handshake pending, \<open>write\<close> pops the oldest frame and sends it,
  repeatedly: the frames reach the wire in exactly the order in which they were enqueued and
  never reordered. With \<open>k\<close> the number of leading sends that complete, the first \<open>k\<close> frames
  are transmitted; if every send completes, all frames are transmitted, none is dropped and
  the queue is empty; if a send raises, the frame popped for it is lost and the frames behind
  it stay queued in their order.
\<close>

theorem outbound_fifo:
  "[] \<notin> set items \<and> \<not> u_needs_handshake s \<and> u_sock s \<noteq> None \<longrightarrow>
     (let frames = u_q s @ map (\<lambda>item. dumps (JObj item) @ [NEWLINE]) items;
          k = length (takeWhile send_ok [0..<length frames]);
          r = write_cb h sp hs send_ok (puts dumps items s)
      in u_q (puts dumps items s) = frames
         \<and> wire (fst r) = wire s @ take k frames
         \<and> u_q (fst r) = drop (Suc k) frames
         \<and> snd r = (if k < length frames then Some SocketError else None)
         \<and> ((\<forall>i. send_ok i) \<longrightarrow> wire (fst r) = wire s @ frames \<and> u_q (fst r) = [] \<and> snd r = None))"
proof (intro impI, elim conjE)
  assume items: "[] \<notin> set items" and hs: "\<not> u_needs_handshake s" and sock: "u_sock s \<noteq> None"
  let ?frames = "u_q s @ map (\<lambda>item. dumps (JObj item) @ [NEWLINE]) items"
  let ?s1 = "puts dumps items s"
  have s1: "?s1 = s\<lparr>u_q := ?frames\<rparr>"
    using puts_fields [OF items] by simp
  have w: "write_cb h sp hs send_ok ?s1 =
     (let k = length (takeWhile send_ok [0..<length ?frames])
      in (?s1\<lparr>u_q := drop (Suc k) ?frames, wire := wire s @ take k ?frames\<rparr>,
          if k < length ?frames then Some SocketError else None))"
    using write_drains [of ?s1 h sp hs send_ok] hs sock by (simp add: s1)
  have all: "length (takeWhile send_ok [0..<length ?frames]) = length ?frames" if "\<forall>i. send_ok i"
  proof -
    have "takeWhile send_ok [0..<length ?frames] = [0..<length ?frames]"
      using that by simp
    then show ?thesis
      by (simp only: length_upt)
  qed
  show "(let frames = ?frames;
          k = length (takeWhile send_ok [0..<length frames]);
          r = write_cb h sp hs send_ok ?s1
      in u_q ?s1 = frames
         \<and> wire (fst r) = wire s @ take k frames
         \<and> u_q (fst r) = drop (Suc k) frames
         \<and> snd r = (if k < length frames then Some SocketError else None)
         \<and> ((\<forall>i. send_ok i) \<longrightarrow> wire (fst r) = wire s @ frames \<and> u_q (fst r) = [] \<and> snd r = None))"
    unfolding w using all by (simp add: Let_def s1)
qed

theorem outbound_fifo_witness:
  \<open>(let s = fst (connect True 3448 5 Conn_ok (init (Some False) False ''floobits.com'' 3448 False));
        items = [[(''name'', JStr ''patch''), (''data'', JStr ''x'')], [(''name'', JStr ''ping'')]];
        r = write_cb 7 True Handshake_ok (\<lambda>i. True) (puts dumps_sample items s)
    in [] \<notin> set items \<and> \<not> u_needs_handshake s \<and> u_sock s \<noteq> None
       \<and> snd r = None
       \<and> wire (fst r) = [''{"name": "patch", "data": "x"}'' @ [NEWLINE], ''{"name": "ping"}'' @ [NEWLINE]]
       \<and> u_q (fst r) = [])\<close>
  using outbound_fifo [of
      "[[(''name'', JStr ''patch''), (''data'', JStr ''x'')], [(''name'', JStr ''ping'')]]"
      "fst (connect True 3448 5 Conn_ok (init (Some False) False ''floobits.com'' 3448 False))"
      dumps_sample "\<lambda>i. True" 7 True Handshake_ok]
  by (simp add: init_def method_defs dumps_sample_def Let_def)

subsection \<open>The inbound buffer\<close>

lemma split_line:
  "NEWLINE \<notin> set l \<Longrightarrow>
     takeWhile (\<lambda>c. c \<noteq> NEWLINE) (l @ NEWLINE # rest) = l
   \<and> tl (dropWhile (\<lambda>c. c \<noteq> NEWLINE) (l @ NEWLINE # rest)) = rest"
  by (induction l) auto

lemma handle_partial:
  "NEWLINE \<notin> set (u_buf s) \<Longrightarrow> u_handle_loop loads hr s = (s, None)"
  by (subst u_handle_loop.simps) simp

lemma stop_emitted: "emitted (stop s) = emitted s"
  by (simp add: stop_def cleanup_def cancel_timeout_def Let_def split: option.splits)

lemma handle_line:
  assumes "NEWLINE \<notin> set l" and "u_buf s = l @ NEWLINE # rest"
  shows "loads l = None \<Longrightarrow>
           u_handle_loop loads hr s = u_handle_loop loads hr (s\<lparr>u_buf := rest\<rparr>)"
    and "loads l = Some d \<Longrightarrow> \<not> is_dict d \<Longrightarrow> u_handle_loop loads hr s = (s, Some AttributeError)"
    and "loads l = Some (JObj kv) \<Longrightarrow>
           \<exists>s2. emitted s2 = emitted s @ [Data_event (map_of kv ''name'') (JObj kv)]
             \<and> u_handle_loop loads hr s = u_handle_loop loads hr (s2\<lparr>u_buf := rest\<rparr>)"
proof -
  have nl: "NEWLINE \<in> set (u_buf s)"
    using assms by simp
  have tk: "takeWhile (\<lambda>c. c \<noteq> NEWLINE) (u_buf s) = l"
    and dr: "tl (dropWhile (\<lambda>c. c \<noteq> NEWLINE) (u_buf s)) = rest"
    using split_line [OF assms(1), of rest] assms(2) by simp_all
  show "loads l = None \<Longrightarrow>
           u_handle_loop loads hr s = u_handle_loop loads hr (s\<lparr>u_buf := rest\<rparr>)"
    by (subst u_handle_loop.simps) (simp add: nl tk dr Let_def)
  show "loads l = Some d \<Longrightarrow> \<not> is_dict d \<Longrightarrow> u_handle_loop loads hr s = (s, Some AttributeError)"
    by (subst u_handle_loop.simps)
      (simp add: nl tk dr Let_def is_dict_def split: json.splits)
  show "loads l = Some (JObj kv) \<Longrightarrow>
           \<exists>s2. emitted s2 = emitted s @ [Data_event (map_of kv ''name'') (JObj kv)]
             \<and> u_handle_loop loads hr s = u_handle_loop loads hr (s2\<lparr>u_buf := rest\<rparr>)"
  proof -
    assume ld: "loads l = Some (JObj kv)"
    let ?s1 = "s\<lparr>emitted := emitted s @ [Data_event (map_of kv ''name'') (JObj kv)]\<rparr>"
    let ?s2 = "if hr (JObj kv) \<and> map_of kv ''name'' = Some (JStr ''room_info'') then
                 stop (?s1\<lparr>error_messages := error_messages ?s1 @ [''Error joining workspace'']\<rparr>)
               else ?s1"
    have "u_handle_loop loads hr s = u_handle_loop loads hr (?s2\<lparr>u_buf := rest\<rparr>)"
      by (subst u_handle_loop.simps) (simp add: nl tk dr ld Let_def)
    moreover have "emitted ?s2 = emitted s @ [Data_event (map_of kv ''name'') (JObj kv)]"
      by (simp add: stop_emitted)
    ultimately show ?thesis by blast
  qed
qed

lemma framed_Cons: "framed (l # ls) partial = l @ NEWLINE # framed ls partial"
  by (simp add: framed_def)

lemma handle_framed:
  assumes "NEWLINE \<notin> set partial"
  shows "(\<And>l. l \<in> set lines \<Longrightarrow> NEWLINE \<notin> set l \<and> (\<forall>d. loads l = Some d \<longrightarrow> is_dict d)) \<Longrightarrow>
     u_buf s = framed lines partial \<Longrightarrow>
       snd (u_handle_loop loads hr s) = None
     \<and> u_buf (fst (u_handle_loop loads hr s)) = partial
     \<and> emitted (fst (u_handle_loop loads hr s)) = emitted s @ data_events loads lines"
proof (induction lines arbitrary: s)
  case Nil
  then have "NEWLINE \<notin> set (u_buf s)"
    using assms by (simp add: framed_def)
  then show ?case
    using Nil by (simp add: handle_partial framed_def)
next
  case (Cons l ls)
  have l: "NEWLINE \<notin> set l" and dict: "\<And>d. loads l = Some d \<Longrightarrow> is_dict d"
    using Cons.prems(1) [of l] by simp_all
  have buf: "u_buf s = l @ NEWLINE # framed ls partial"
    using Cons.prems(2) by (simp add: framed_Cons)
  have rest: "l' \<in> set ls \<Longrightarrow> NEWLINE \<notin> set l' \<and> (\<forall>d. loads l' = Some d \<longrightarrow> is_dict d)" for l'
    using Cons.prems(1) [of l'] by simp
  show ?case
  proof (cases "loads l")
    case None
    then have "u_handle_loop loads hr s = u_handle_loop loads hr (s\<lparr>u_buf := framed ls partial\<rparr>)"
      using handle_line(1) [OF l buf] by simp
    then show ?thesis
      using Cons.IH [of "s\<lparr>u_buf := framed ls partial\<rparr>"] rest None by simp
  next
    case (Some d)
    then obtain kv where d: "d = JObj kv"
      using dict [of d] by (cases d) (simp_all add: is_dict_def)
    obtain s2 where s2: "emitted s2 = emitted s @ [Data_event (map_of kv ''name'') (JObj kv)]"
      and eq: "u_handle_loop loads hr s = u_handle_loop loads hr (s2\<lparr>u_buf := framed ls partial\<rparr>)"
      using handle_line(3) [OF l buf, of loads kv hr] Some d by blast
    show ?thesis
      using Cons.IH [of "s2\<lparr>u_buf := framed ls partial\<rparr>"] rest Some d s2 eq by simp
  qed
qed

lemma sample_loads:
  \<open>loads_sample ''5'' = Some (JNum 5)\<close>
  \<open>loads_sample ''{"name":"ping"}'' = Some (JObj [(''name'', JStr ''ping'')])\<close>
  \<open>loads_sample ''{"name"'' = None\<close>
  \<open>loads_sample ''not json'' = None\<close>
  by (simp_all add: loads_sample_def)

text \<open>
  For a buffer of complete lines and a partial line in which every line that parses is a
  dict, \<open>_handle\<close> returns normally, has emitted one \<open>data\<close> event for each line that parses,
  in the order of the lines, has dropped the lines that do not parse, and leaves the partial
  line in the buffer.
\<close>

lemma handle_dispatches_lines:
  assumes "NEWLINE \<notin> set partial"
    and "\<And>l. l \<in> set lines \<Longrightarrow> NEWLINE \<notin> set l \<and> (\<forall>d. loads l = Some d \<longrightarrow> is_dict d)"
    and "u_buf s @ data = framed lines partial"
  shows "snd (u_handle loads hr data s) = None
     \<and> u_buf (fst (u_handle loads hr data s)) = partial
     \<and> emitted (fst (u_handle loads hr data s)) = emitted s @ data_events loads lines"
  using handle_framed [OF assms(1), of lines loads "s\<lparr>u_buf := u_buf s @ data\<rparr>" hr] assms(2,3)
  by (simp add: u_handle_def)

lemma handle_ping_then_partial:
  \<open>(let s = fst (connect True 3448 5 Conn_ok (init (Some False) False ''floobits.com'' 3448 False));
        r = u_handle loads_sample (\<lambda>d. False) (framed [''not json'', ''{"name":"ping"}''] ''{"name"'') s
    in snd r = None \<and> u_buf (fst r) = ''{"name"''
       \<and> emitted (fst r) =
           emitted s @ [Data_event (Some (JStr ''ping'')) (JObj [(''name'', JStr ''ping'')])])\<close>
proof -
  let ?s = "fst (connect True 3448 5 Conn_ok (init (Some False) False ''floobits.com'' 3448 False))"
  have buf: "u_buf ?s = []"
    by (simp add: init_def method_defs)
  have \<open>snd (u_handle loads_sample (\<lambda>d. False) (framed [''not json'', ''{"name":"ping"}''] ''{"name"'') ?s) = None
     \<and> u_buf (fst (u_handle loads_sample (\<lambda>d. False) (framed [''not json'', ''{"name":"ping"}''] ''{"name"'') ?s)) = ''{"name"''
     \<and> emitted (fst (u_handle loads_sample (\<lambda>d. False) (framed [''not json'', ''{"name":"ping"}''] ''{"name"'') ?s)) =
         emitted ?s @ data_events loads_sample [''not json'', ''{"name":"ping"}'']\<close>
  proof (rule handle_dispatches_lines)
    show \<open>NEWLINE \<notin> set ''{"name"''\<close>
      by (simp add: NEWLINE_def)
    show \<open>u_buf ?s @ framed [''not json'', ''{"name":"ping"}''] ''{"name"'' =
        framed [''not json'', ''{"name":"ping"}''] ''{"name"''\<close>
      by (simp add: buf)
    show \<open>NEWLINE \<notin> set l \<and> (\<forall>d. loads_sample l = Some d \<longrightarrow> is_dict d)\<close>
      if \<open>l \<in> set [''not json'', ''{"name":"ping"}'']\<close> for l
      using that by (auto simp add: NEWLINE_def sample_loads is_dict_def)
  qed
  then show ?thesis
    by (simp add: Let_def sample_loads)
qed

text \<open>
  C5 fails on the code. \<open>json.loads\<close> is inside the \<open>try\<close>, but \<open>data.get('name')\<close> is not: a
  complete line that parses to something other than a dict (here the line \<open>5\<close>) makes
  \<open>_handle\<close> raise \<open>AttributeError\<close> before the buffer is advanced. No event is emitted for it
  or for the valid line behind it, and the whole input stays in the buffer, so every later
  call of \<open>_handle\<close> raises at the same line again.
\<close>

theorem handle_non_dict_line_raises:
  \<open>(let s = fst (connect True 3448 5 Conn_ok (init (Some False) False ''floobits.com'' 3448 False));
        r = u_handle loads_sample (\<lambda>d. False) (framed [''5'', ''{"name":"ping"}''] []) s
    in snd r = Some AttributeError \<and> emitted (fst r) = emitted s
       \<and> u_buf (fst r) = framed [''5'', ''{"name":"ping"}''] [])\<close>
proof -
  let ?s = "fst (connect True 3448 5 Conn_ok (init (Some False) False ''floobits.com'' 3448 False))"
  let ?data = \<open>framed [''5'', ''{"name":"ping"}''] []\<close>
  let ?t = "?s\<lparr>u_buf := u_buf ?s @ ?data\<rparr>"
  have buf: "u_buf ?s = []"
    by (simp add: init_def method_defs)
  have "u_handle_loop loads_sample (\<lambda>d. False) ?t = (?t, Some AttributeError)"
  proof (rule handle_line(2))
    show "NEWLINE \<notin> set ''5''"
      by (simp add: NEWLINE_def)
    show \<open>u_buf ?t = ''5'' @ NEWLINE # framed [''{"name":"ping"}''] []\<close>
      by (simp add: buf framed_Cons)
    show "loads_sample ''5'' = Some (JNum 5)"
      by (rule sample_loads(1))
    show "\<not> is_dict (JNum 5)"
      by (simp add: is_dict_def)
  qed
  then show ?thesis
    by (simp add: u_handle_def Let_def buf)
qed

subsection \<open>At most one reconnect timer\<close>

lemma one_timer_frame:
  "u_reconnect_timeout s' = u_reconnect_timeout s \<Longrightarrow> pending_timers s' = pending_timers s \<Longrightarrow>
     one_timer s' = one_timer s"
  by (simp add: one_timer_def)

lemma cleanup_one_timer: "one_timer (cleanup s) = one_timer s"
  by (rule one_timer_frame) (simp_all add: cleanup_def)

lemma stop_one_timer: "one_timer s \<Longrightarrow> one_timer (stop s)"
  by (auto simp add: one_timer_def stop_def cleanup_def cancel_timeout_def Let_def
      split: option.splits)

lemma reconnect_one_timer: "h \<noteq> 0 \<Longrightarrow> one_timer s \<Longrightarrow> one_timer (reconnect h s)"
  by (auto simp add: one_timer_def reconnect_def cleanup_def set_timeout_def truthy_def Let_def
      split: option.splits)

lemma u_connect_one_timer: "one_timer (fst (u_connect oc attempts s)) = one_timer s"
  by (rule one_timer_frame) (simp_all add: u_connect_def)

lemma connect_one_timer: "one_timer s \<Longrightarrow> one_timer (fst (connect sp dp fd oc s))"
  by (auto simp add: one_timer_def connect_def u_connect_def cleanup_def cancel_timeout_def Let_def
      split: option.splits)

lemma fire_one_timer:
  "one_timer s \<Longrightarrow> one_timer (step (Op_timer_fires k sp dp fd oc) s)"
  by (auto simp add: one_timer_def connect_def u_connect_def cleanup_def cancel_timeout_def Let_def
      split: option.splits)

lemma handle_loop_one_timer:
  "one_timer s \<Longrightarrow> one_timer (fst (u_handle_loop loads hr s))"
proof (induction loads hr s rule: u_handle_loop.induct)
  case (1 loads hr s)
  show ?case
  proof (cases "NEWLINE \<in> set (u_buf s)")
    case False
    then show ?thesis
      using "1.prems" by (subst u_handle_loop.simps) simp
  next
    case True
    let ?before = "takeWhile (\<lambda>c. c \<noteq> NEWLINE) (u_buf s)"
    let ?after = "tl (dropWhile (\<lambda>c. c \<noteq> NEWLINE) (u_buf s))"
    show ?thesis
    proof (cases "loads ?before")
      case None
      have "one_timer (fst (u_handle_loop loads hr (s\<lparr>u_buf := ?after\<rparr>)))"
        using "1.IH"(1) [of ?before ?after] True None "1.prems" by (simp add: one_timer_def)
      then show ?thesis
        using True None by (subst u_handle_loop.simps) (simp add: Let_def)
    next
      case (Some d)
      show ?thesis
      proof (cases d)
        case (JObj kv)
        let ?name = "map_of kv ''name''"
        let ?s1 = "s\<lparr>emitted := emitted s @ [Data_event ?name (JObj kv)]\<rparr>"
        let ?s2 = "if hr (JObj kv) \<and> ?name = Some (JStr ''room_info'') then
                 stop (?s1\<lparr>error_messages := error_messages ?s1 @ [''Error joining workspace'']\<rparr>)
               else ?s1"
        have "one_timer (?s1\<lparr>error_messages := error_messages ?s1 @ [''Error joining workspace'']\<rparr>)"
          using "1.prems" by (simp add: one_timer_def)
        then have "one_timer
            (stop (?s1\<lparr>error_messages := error_messages ?s1 @ [''Error joining workspace'']\<rparr>))"
          by (rule stop_one_timer)
        moreover have "one_timer ?s1"
          using "1.prems" by (simp add: one_timer_def)
        ultimately have "one_timer ?s2"
          by (simp only: if_split) blast
        then have s2: "one_timer (?s2\<lparr>u_buf := ?after\<rparr>)"
          by (simp add: one_timer_def)
        have "one_timer (fst (u_handle_loop loads hr (?s2\<lparr>u_buf := ?after\<rparr>)))"
          using "1.IH"(2) [of ?before ?after d kv ?name ?s1 ?s2] True Some JObj s2 by simp
        then show ?thesis
          using True Some JObj by (subst u_handle_loop.simps) (simp add: Let_def)
      qed (use True Some "1.prems" in \<open>subst u_handle_loop.simps, simp add: Let_def\<close>)+
    qed
  qed
qed

lemma read_one_timer:
  "h \<noteq> 0 \<Longrightarrow> one_timer s \<Longrightarrow> one_timer (fst (read h tick a chunks loads hr s))"
proof -
  assume h: "h \<noteq> 0" and inv: "one_timer s"
  have a: "one_timer (s\<lparr>u_empty_reads := n\<rparr>)" for n
    using inv by (simp add: one_timer_def)
  have b: "one_timer (s\<lparr>u_empty_reads := 0, u_buf := x\<rparr>)" for x
    using inv by (simp add: one_timer_def)
  show ?thesis
    using inv a b reconnect_one_timer [OF h] handle_loop_one_timer
    by (simp add: read_def u_handle_def Let_def split: option.splits)
qed

lemma write_one_timer:
  "h \<noteq> 0 \<Longrightarrow> one_timer s \<Longrightarrow> one_timer (fst (write_cb h sp hs send_ok s))"
proof -
  assume h: "h \<noteq> 0" and inv: "one_timer s"
  have a: "one_timer (s\<lparr>u_q := x\<rparr>)" "one_timer (s\<lparr>u_q := x, wire := y\<rparr>)"
      "one_timer (s\<lparr>u_needs_handshake := z\<rparr>)" for x y z
    using inv by (simp_all add: one_timer_def)
  show ?thesis
    using inv a reconnect_one_timer [OF h inv]
    by (simp add: write_cb_def Let_def split: list.splits prod.splits)
qed

lemma put_one_timer: "one_timer (fst (put dumps item s)) = one_timer s"
  by (rule one_timer_frame) (simp_all add: put_def Let_def)

lemma listen_one_timer: "one_timer (listen s) = one_timer s"
  by (rule one_timer_frame) (simp_all add: listen_def)

lemma step_one_timer: "issues_truthy x \<Longrightarrow> one_timer s \<Longrightarrow> one_timer (step x s)"
proof (cases x)
  case (Op_timer_fires k sp dp fd oc)
  assume "one_timer s"
  then show ?thesis
    unfolding Op_timer_fires by (rule fire_one_timer)
qed (simp_all add: connect_one_timer u_connect_one_timer cleanup_one_timer stop_one_timer
    reconnect_one_timer read_one_timer write_one_timer put_one_timer listen_one_timer)

lemma run_one_timer: "list_all issues_truthy ops \<Longrightarrow> one_timer s \<Longrightarrow> one_timer (run ops s)"
  by (induction ops arbitrary: s) (simp_all add: step_one_timer)

lemma one_timer_length: "one_timer s \<Longrightarrow> length (pending_timers s) \<le> 1"
proof -
  assume "one_timer s"
  then have "length (map fst (pending_timers s)) \<le> 1"
    by (auto simp add: one_timer_def split: option.splits)
  then show ?thesis by simp
qed

lemma init_one_timer: "one_timer (init l j hst p sec)"
  by (simp add: one_timer_def init_def)

text \<open>
  C7 as stated fails. The guard of \<open>reconnect\<close> is \<open>if self._reconnect_timeout:\<close>, a test of
  truthiness, not of \<open>None\<close>. When the timer service returns the handle 0 for the first
  reconnect timer, that timer is pending and its handle is stored, yet the next call of
  \<open>reconnect\<close> gets past the guard and arms a second timer: two are pending.
\<close>

theorem falsy_handle_counterexample:
  "u_reconnect_timeout (reconnect 0 (init (Some False) False ''floobits.com'' 3448 True)) = Some 0
   \<and> pending_timers (reconnect 0 (init (Some False) False ''floobits.com'' 3448 True))
       = [(0, 750)]
   \<and> pending_timers
        (reconnect 8 (reconnect 0 (init (Some False) False ''floobits.com'' 3448 True)))
       = [(0, 750), (8, 1125)]"
  by (simp add: init_def method_defs Let_def)

text \<open>
  C7 (amended). A call of \<open>reconnect\<close> while a truthy timer handle is stored changes nothing
  (only the call counter of the model moves): in particular it arms no timer. For every
  sequence of calls on a fresh connection in which the timer service hands out truthy
  handles only, the stored handle names exactly the pending reconnect timers, so at most one
  is pending at any time.
\<close>

theorem reconnect_single_timer:
  "(truthy (u_reconnect_timeout s) \<longrightarrow>
      reconnect h s = s\<lparr>reconnect_calls := Suc (reconnect_calls s)\<rparr>)
   \<and> (list_all issues_truthy ops \<longrightarrow>
        one_timer (run ops (init l j hst p sec))
        \<and> length (pending_timers (run ops (init l j hst p sec))) \<le> 1)"
proof (intro conjI impI)
  assume "truthy (u_reconnect_timeout s)"
  then show "reconnect h s = s\<lparr>reconnect_calls := Suc (reconnect_calls s)\<rparr>"
    by (simp add: reconnect_def)
next
  assume "list_all issues_truthy ops"
  then show inv: "one_timer (run ops (init l j hst p sec))"
    using init_one_timer by (rule run_one_timer)
  then show "length (pending_timers (run ops (init l j hst p sec))) \<le> 1"
    by (rule one_timer_length)
qed

theorem reconnect_single_timer_witness:
  "(let s0 = init (Some False) False ''floobits.com'' 3448 True;
        ops = [Op_reconnect 7, Op_reconnect 8, Op_read 9 1 True [] loads_sample (\<lambda>d. False)]
    in truthy (u_reconnect_timeout (reconnect 7 s0))
       \<and> pending_timers (reconnect 7 s0) = [(7, 750)]
       \<and> pending_timers (reconnect 8 (reconnect 7 s0)) = [(7, 750)]
       \<and> list_all issues_truthy ops
       \<and> length (pending_timers (run ops s0)) \<le> 1)"
  using reconnect_single_timer [of "reconnect 7 (init (Some False) False ''floobits.com'' 3448 True)" 8
      "[Op_reconnect 7, Op_reconnect 8, Op_read 9 1 True [] loads_sample (\<lambda>d. False)]"
      "Some False" False "''floobits.com''" 3448 True]
  by (simp add: init_def method_defs Let_def)

end
